theory Spec2Isabelle
  imports Main "HOL-Library.AList"
begin

section \<open>The package initialiser of hatch\_mcp\_server\<close>

text \<open>
  The file \<^verbatim>\<open>src/hatch_mcp_server/__init__.py\<close> is the body of the package
  \<^verbatim>\<open>hatch_mcp_server\<close>:
  \<^verbatim>\<open>
  """
  Hatch MCP Server - The wrapper for MCP servers to service Hatch-related applications.
  ...
  """

  __version__ = "0.2.0"

  from .hatch_mcp import HatchMCP

  __all__ = [
      'HatchMCP'
  ]
  \<close>
  It has no function of its own: what it does is what Python does when it executes these
  four statements in the namespace of the package. The development therefore embeds
  the statements as data, the execution of a module body as a function on namespaces,
  and the module \<^verbatim>\<open>hatch_mcp\<close> (which is not part of the file) as a parameter.
\<close>

subsection \<open>Values, namespaces, exceptions\<close>

text \<open>
  A name is bound to a reference. Strings and lists built by the file are given by their
  content; an object made elsewhere (the class \<^verbatim>\<open>HatchMCP\<close>) is opaque and is given by
  its identity (what \<^verbatim>\<open>id()\<close> returns), a module object by its qualified name in
  \<^verbatim>\<open>sys.modules\<close>. Two references to an opaque object are the same object exactly when
  they are equal.
\<close>

datatype pyval =
    PyNone
  | PyStr string
  | PyList "pyval list"
  | PyObj nat
  | PyModule string

text \<open>
  A module namespace is a Python dict: keys in insertion order, one entry per key.
  Binding a name that is already bound replaces the value in place.
\<close>

type_synonym namespace = "(string \<times> pyval) list"

datatype error =
    ModuleNotFoundError string
  | ImportError string string
  | AttributeError string
  | TypeError
  | Raised string

text \<open>
  \<^verbatim>\<open>ModuleNotFoundError\<close> is a subclass of \<^verbatim>\<open>ImportError\<close>: both are what the
  specification calls a resolution error.
\<close>

fun is_import_error :: "error \<Rightarrow> bool" where
  "is_import_error (ModuleNotFoundError m) = True"
| "is_import_error (ImportError n m) = True"
| "is_import_error e = False"

definition getattr :: "namespace \<Rightarrow> string \<Rightarrow> error + pyval" where
  "getattr ns n = (case map_of ns n of None \<Rightarrow> Inl (AttributeError n) | Some v \<Rightarrow> Inr v)"

definition bound :: "namespace \<Rightarrow> string \<Rightarrow> bool" where
  "bound ns n = (map_of ns n \<noteq> None)"

subsection \<open>The statements of the file\<close>

datatype expr =
    StrLit string
  | ListDisplay "expr list"

text \<open>
  \<open>Doc d\<close> is the docstring that opens a module, \<open>Assign n e\<close> is \<^verbatim>\<open>n = e\<close>, and
  \<open>ImportFrom m ns\<close> is the relative import \<^verbatim>\<open>from .m import n1, n2, ...\<close>.
\<close>

datatype stmt =
    Doc string
  | Assign string expr
  | ImportFrom string "string list"

definition package_name :: string where
  "package_name = ''hatch_mcp_server''"

definition facade_doc :: string where
  "facade_doc = ''\<newline>Hatch MCP Server - The wrapper for MCP servers to service Hatch-related applications.\<newline>\<newline>This package provides a class for extending MCP servers with additional functionalities\<newline>relevant to the Hatch ecosystem. This includes:\<newline>\<newline>- Citations for Origin Software and MCP server implementations as MCP resources.\<newline>\<newline>''"

definition facade_body :: "stmt list" where
  "facade_body =
     [Doc facade_doc,
      Assign ''__version__'' (StrLit ''0.2.0''),
      ImportFrom ''hatch_mcp'' [''HatchMCP''],
      Assign ''__all__'' (ListDisplay [StrLit ''HatchMCP''])]"

subsection \<open>The collaborator\<close>

text \<open>
  The module \<^verbatim>\<open>hatch_mcp\<close> is not in the file. An environment says, for a qualified
  module name, what importing it gives: nothing (no such module), an exception raised
  by its body, or the namespace of the module. A module is either found and loaded by
  this import (\<open>Loaded\<close>) or taken from \<^verbatim>\<open>sys.modules\<close>, where an earlier import has left
  it (\<open>Cached\<close>): the second happens when the package is loaded again while its
  submodule is still in \<^verbatim>\<open>sys.modules\<close>. The module is a plain module (a file
  \<^verbatim>\<open>hatch_mcp.py\<close>, not a package), and its body is taken not to write into the
  namespace of the package that is importing it.
\<close>

datatype modresult =
    Loaded namespace
  | Cached namespace
  | Raises error

type_synonym env = "string \<rightharpoonup> modresult"

definition absolute_name :: "string \<Rightarrow> string" where
  "absolute_name m = package_name @ ''.'' @ m"

definition collaborator :: string where
  "collaborator = absolute_name ''hatch_mcp''"

definition import_module :: "env \<Rightarrow> string \<Rightarrow> error + namespace" where
  "import_module env q =
     (case env q of
        None \<Rightarrow> Inl (ModuleNotFoundError q)
      | Some (Raises e) \<Rightarrow> Inl e
      | Some (Loaded mns) \<Rightarrow> Inr mns
      | Some (Cached mns) \<Rightarrow> Inr mns)"

text \<open>
  When the import system loads a submodule it sets the submodule as an attribute of
  its package, under the last part of its name. It does so only where it loads: a
  module that is already in \<^verbatim>\<open>sys.modules\<close> is returned as it is, and the package is not
  touched.
\<close>

definition bind_submodule :: "env \<Rightarrow> string \<Rightarrow> namespace \<Rightarrow> namespace" where
  "bind_submodule env m ns =
     (case env (absolute_name m) of
        Some (Loaded mns) \<Rightarrow> AList.update m (PyModule (absolute_name m)) ns
      | _ \<Rightarrow> ns)"

subsection \<open>Executing a module body\<close>

fun eval :: "expr \<Rightarrow> pyval" where
  "eval (StrLit s) = PyStr s"
| "eval (ListDisplay es) = PyList (map eval es)"

text \<open>
  \<^verbatim>\<open>from m import n1, n2\<close> fetches the names in order from the module it got and binds
  each one to the very reference it found; the first name the module does not have
  raises \<^verbatim>\<open>ImportError\<close>, the names before it staying bound.
\<close>

fun import_names :: "string \<Rightarrow> namespace \<Rightarrow> string list \<Rightarrow> namespace \<Rightarrow> error option \<times> namespace" where
  "import_names q mns [] ns = (None, ns)"
| "import_names q mns (n # names) ns =
     (case map_of mns n of
        None \<Rightarrow> (Some (ImportError n q), ns)
      | Some v \<Rightarrow> import_names q mns names (AList.update n v ns))"

text \<open>
  A statement runs in the namespace of the package and gives the namespace it leaves,
  with the exception it raised if it raised one. In an import the module is obtained
  first (which is when a submodule that is loaded becomes an attribute of the package),
  then the names are fetched from it.
\<close>

fun exec_stmt :: "env \<Rightarrow> stmt \<Rightarrow> namespace \<Rightarrow> error option \<times> namespace" where
  "exec_stmt env (Doc d) ns = (None, AList.update ''__doc__'' (PyStr d) ns)"
| "exec_stmt env (Assign n e) ns = (None, AList.update n (eval e) ns)"
| "exec_stmt env (ImportFrom m names) ns =
     (case import_module env (absolute_name m) of
        Inl e \<Rightarrow> (Some e, ns)
      | Inr mns \<Rightarrow>
          import_names (absolute_name m) mns names (bind_submodule env m ns))"

text \<open>The body runs statement by statement and stops at the first exception.\<close>

fun exec_body :: "env \<Rightarrow> stmt list \<Rightarrow> namespace \<Rightarrow> error option \<times> namespace" where
  "exec_body env [] ns = (None, ns)"
| "exec_body env (s # ss) ns =
     (case exec_stmt env s ns of
        (Some e, ns') \<Rightarrow> (Some e, ns')
      | (None, ns') \<Rightarrow> exec_body env ss ns')"

text \<open>
  The statements that a run of the body reaches, each with the namespace it starts in.
\<close>

fun steps :: "env \<Rightarrow> stmt list \<Rightarrow> namespace \<Rightarrow> (stmt \<times> namespace) list" where
  "steps env [] ns = []"
| "steps env (s # ss) ns =
     (s, ns) #
     (case exec_stmt env s ns of
        (Some e, ns') \<Rightarrow> []
      | (None, ns') \<Rightarrow> steps env ss ns')"

text \<open>
  Every namespace a run goes through: the one before each statement reached, then the
  one the run ends in (complete, or left as it was when the exception was raised).
\<close>

definition trace :: "env \<Rightarrow> stmt list \<Rightarrow> namespace \<Rightarrow> namespace list" where
  "trace env body ns = map snd (steps env body ns) @ [snd (exec_body env body ns)]"

text \<open>
  Loading the package, as the importer sees it: the namespace \<open>ns0\<close> is the one the
  import system has prepared for the new module. When the body raises, the module is
  dropped and the importer gets the exception, as it was raised, and no module.
\<close>

definition load_facade :: "env \<Rightarrow> namespace \<Rightarrow> error + namespace" where
  "load_facade env ns0 =
     (case exec_body env facade_body ns0 of
        (Some e, ns) \<Rightarrow> Inl e
      | (None, ns) \<Rightarrow> Inr ns)"

text \<open>What an importer that holds the result of a load can reach under a name.\<close>

definition available :: "error + namespace \<Rightarrow> string \<Rightarrow> bool" where
  "available r n = (case r of Inl e \<Rightarrow> False | Inr ns \<Rightarrow> bound ns n)"

text \<open>
  The names a statement may bind: a statement leaves every other name as it found it
  (lemma \<open>exec_stmt_frame\<close> below).
\<close>

fun binds :: "stmt \<Rightarrow> string list" where
  "binds (Doc d) = [''__doc__'']"
| "binds (Assign n e) = [n]"
| "binds (ImportFrom m names) = m # names"

fun is_import :: "stmt \<Rightarrow> bool" where
  "is_import (ImportFrom m names) = True"
| "is_import s = False"

subsection \<open>Wildcard import\<close>

text \<open>
  \<^verbatim>\<open>from hatch_mcp_server import *\<close> reads \<^verbatim>\<open>__all__\<close> when the package has one and
  goes through its items in order: a list gives its elements, a string its characters,
  \<^verbatim>\<open>None\<close> and a module cannot be iterated (\<^verbatim>\<open>TypeError\<close>). An item that is not a
  string is a \<^verbatim>\<open>TypeError\<close>; an item that names an attribute of the package is bound
  to that attribute. Without \<^verbatim>\<open>__all__\<close>, the names of the package that do not start
  with an underscore are taken.

  Two cases are left out, with the result \<open>None\<close>: an \<^verbatim>\<open>__all__\<close> that is an opaque
  object (what iterating it gives is not known), and an item that names no attribute of
  the package (Python then asks the import system for a submodule of that name).
\<close>

definition sequence_items :: "pyval \<Rightarrow> (error + pyval list) option" where
  "sequence_items a =
     (case a of
        PyList vs \<Rightarrow> Some (Inr vs)
      | PyStr cs \<Rightarrow> Some (Inr (map (\<lambda>c. PyStr [c]) cs))
      | PyNone \<Rightarrow> Some (Inl TypeError)
      | PyModule q \<Rightarrow> Some (Inl TypeError)
      | PyObj i \<Rightarrow> None)"

fun fetch_all :: "namespace \<Rightarrow> pyval list \<Rightarrow> (error + (string \<times> pyval) list) option" where
  "fetch_all ns [] = Some (Inr [])"
| "fetch_all ns (PyStr n # vs) =
     (case map_of ns n of
        None \<Rightarrow> None
      | Some v \<Rightarrow>
          (case fetch_all ns vs of
             None \<Rightarrow> None
           | Some (Inl e) \<Rightarrow> Some (Inl e)
           | Some (Inr bs) \<Rightarrow> Some (Inr ((n, v) # bs))))"
| "fetch_all ns (v # vs) = Some (Inl TypeError)"

fun underscored :: "string \<Rightarrow> bool" where
  "underscored [] = False"
| "underscored (c # cs) = (c = CHR ''_'')"

definition import_star :: "namespace \<Rightarrow> (error + (string \<times> pyval) list) option" where
  "import_star ns =
     (case map_of ns ''__all__'' of
        None \<Rightarrow> Some (Inr (filter (\<lambda>(n, v). \<not> underscored n) ns))
      | Some a \<Rightarrow>
          (case sequence_items a of
             None \<Rightarrow> None
           | Some (Inl e) \<Rightarrow> Some (Inl e)
           | Some (Inr vs) \<Rightarrow> fetch_all ns vs))"

subsection \<open>Sample environments\<close>

text \<open>
  An environment in which \<^verbatim>\<open>hatch_mcp\<close> defines the class (object 7) and a helper, one
  in which the module is there without the class, and one with no such module; then
  the first two again with the module already in \<^verbatim>\<open>sys.modules\<close>. The namespace of a
  module just created holds its name and an empty docstring.
\<close>

definition env_ok :: env where
  "env_ok = [collaborator \<mapsto> Loaded [(''logging'', PyModule ''logging''), (''HatchMCP'', PyObj 7)]]"


definition env_nosym :: env where
  "env_nosym = [collaborator \<mapsto> Loaded [(''logging'', PyModule ''logging'')]]"

definition env_cached :: env where
  "env_cached = [collaborator \<mapsto> Cached [(''logging'', PyModule ''logging''), (''HatchMCP'', PyObj 7)]]"

definition env_cached_nosym :: env where
  "env_cached_nosym = [collaborator \<mapsto> Cached [(''logging'', PyModule ''logging'')]]"

definition env_absent :: env where
  "env_absent = Map.empty"

definition fresh_ns :: namespace where
  "fresh_ns = [(''__name__'', PyStr package_name), (''__doc__'', PyNone)]"


definition loaded_ns :: namespace where
  "loaded_ns =
     [(''__name__'', PyStr package_name),
      (''__doc__'', PyStr facade_doc),
      (''__version__'', PyStr ''0.2.0''),
      (''hatch_mcp'', PyModule collaborator),
      (''HatchMCP'', PyObj 7),
      (''__all__'', PyList [PyStr ''HatchMCP''])]"

definition reloaded_ns :: namespace where
  "reloaded_ns =
     [(''__name__'', PyStr package_name),
      (''__doc__'', PyStr facade_doc),
      (''__version__'', PyStr ''0.2.0''),
      (''HatchMCP'', PyObj 7),
      (''__all__'', PyList [PyStr ''HatchMCP''])]"

section \<open>Properties\<close>

subsection \<open>Running the body\<close>

lemma absolute_hatch_mcp: "absolute_name ''hatch_mcp'' = collaborator"
  by (simp add: collaborator_def)

lemma map_of_bind_submodule:
  "map_of (bind_submodule env m ns) n =
     (if n = m \<and> (\<exists>mns. env (absolute_name m) = Some (Loaded mns))
      then Some (PyModule (absolute_name m)) else map_of ns n)"
  by (auto simp: bind_submodule_def update_conv' split: option.splits modresult.splits)

lemma exec_facade_body:
  "exec_body env facade_body ns0 =
     (case import_module env collaborator of
        Inl e \<Rightarrow>
          (Some e, AList.update ''__version__'' (PyStr ''0.2.0'')
                     (AList.update ''__doc__'' (PyStr facade_doc) ns0))
      | Inr mns \<Rightarrow>
          (case map_of mns ''HatchMCP'' of
             None \<Rightarrow>
               (Some (ImportError ''HatchMCP'' collaborator),
                bind_submodule env ''hatch_mcp''
                  (AList.update ''__version__'' (PyStr ''0.2.0'')
                     (AList.update ''__doc__'' (PyStr facade_doc) ns0)))
           | Some v \<Rightarrow>
               (None,
                AList.update ''__all__'' (PyList [PyStr ''HatchMCP''])
                  (AList.update ''HatchMCP'' v
                     (bind_submodule env ''hatch_mcp''
                        (AList.update ''__version__'' (PyStr ''0.2.0'')
                           (AList.update ''__doc__'' (PyStr facade_doc) ns0)))))))"
  by (simp add: facade_body_def absolute_hatch_mcp split: sum.splits option.splits)

lemma import_names_frame:
  "n \<notin> set names \<Longrightarrow> map_of (snd (import_names q mns names ns)) n = map_of ns n"
  by (induction names arbitrary: ns) (auto simp: update_conv' split: option.splits)

lemma exec_stmt_frame:
  "n \<notin> set (binds s) \<Longrightarrow> map_of (snd (exec_stmt env s ns)) n = map_of ns n"
  by (cases s) (auto simp: update_conv' import_names_frame map_of_bind_submodule split: sum.splits)

lemma steps_facade_body:
  "steps env facade_body ns0 =
     [(Doc facade_doc, ns0),
      (Assign ''__version__'' (StrLit ''0.2.0''), AList.update ''__doc__'' (PyStr facade_doc) ns0),
      (ImportFrom ''hatch_mcp'' [''HatchMCP''],
       AList.update ''__version__'' (PyStr ''0.2.0'')
         (AList.update ''__doc__'' (PyStr facade_doc) ns0))] @
     (case import_module env collaborator of
        Inl e \<Rightarrow> []
      | Inr mns \<Rightarrow>
          (case map_of mns ''HatchMCP'' of
             None \<Rightarrow> []
           | Some v \<Rightarrow>
               [(Assign ''__all__'' (ListDisplay [StrLit ''HatchMCP'']),
                 AList.update ''HatchMCP'' v
                   (bind_submodule env ''hatch_mcp''
                      (AList.update ''__version__'' (PyStr ''0.2.0'')
                         (AList.update ''__doc__'' (PyStr facade_doc) ns0))))]))"
  by (simp add: facade_body_def absolute_hatch_mcp split: sum.splits option.splits)

lemma load_fresh_ok: "load_facade env_ok fresh_ns = Inr loaded_ns"
  by (simp add: load_facade_def exec_facade_body import_module_def bind_submodule_def
      absolute_hatch_mcp env_ok_def fresh_ns_def loaded_ns_def)

text \<open>
  C1. After the package has loaded, the name \<^verbatim>\<open>__version__\<close> is bound in it, to the
  string \<^verbatim>\<open>"0.2.0"\<close>.
\<close>

theorem version_presence:
  "load_facade env ns0 = Inr ns \<Longrightarrow> getattr ns ''__version__'' = Inr (PyStr ''0.2.0'')"
  by (auto simp: load_facade_def exec_facade_body getattr_def update_conv' map_of_bind_submodule
      split: sum.splits option.splits)

theorem version_presence_witness:
  "load_facade env_ok fresh_ns = Inr loaded_ns \<and>
   getattr loaded_ns ''__version__'' = Inr (PyStr ''0.2.0'')"
  using version_presence [OF load_fresh_ok] load_fresh_ok by simp

text \<open>
  C2. After the package has loaded, \<^verbatim>\<open>__all__\<close> is the list with the one entry
  \<^verbatim>\<open>'HatchMCP'\<close>.
\<close>

theorem export_manifest:
  "load_facade env ns0 = Inr ns \<Longrightarrow> getattr ns ''__all__'' = Inr (PyList [PyStr ''HatchMCP''])"
  by (auto simp: load_facade_def exec_facade_body getattr_def update_conv' map_of_bind_submodule
      split: sum.splits option.splits)

theorem export_manifest_witness:
  "load_facade env_ok fresh_ns = Inr loaded_ns \<and>
   getattr loaded_ns ''__all__'' = Inr (PyList [PyStr ''HatchMCP''])"
  using export_manifest [OF load_fresh_ok] load_fresh_ok by simp

text \<open>
  C3. When the module \<^verbatim>\<open>hatch_mcp\<close> cannot be found, or is there (loaded by this
  import, or already in \<^verbatim>\<open>sys.modules\<close>) and has no attribute \<^verbatim>\<open>HatchMCP\<close>, loading the
  package fails: the importer gets the import error that the
  import statement raised (\<^verbatim>\<open>ModuleNotFoundError\<close> in the first case, \<^verbatim>\<open>ImportError\<close>
  in the second), unchanged, and never a loaded package.
\<close>

theorem load_failure_propagation:
  "(env collaborator = None \<longrightarrow>
      load_facade env nsa = Inl (ModuleNotFoundError collaborator)) \<and>
   (env collaborator = Some (Loaded mns) \<and> map_of mns ''HatchMCP'' = None \<longrightarrow>
      load_facade env nsa = Inl (ImportError ''HatchMCP'' collaborator)) \<and>
   (env collaborator = None \<or>
    (env collaborator = Some (Loaded mns) \<and> map_of mns ''HatchMCP'' = None) \<longrightarrow>
      (\<exists>e. fst (exec_stmt env (ImportFrom ''hatch_mcp'' [''HatchMCP'']) nsb) = Some e \<and>
           is_import_error e \<and> load_facade env nsa = Inl e)) \<and>
   (env collaborator = Some (Cached mns) \<and> map_of mns ''HatchMCP'' = None \<longrightarrow>
      load_facade env nsa = Inl (ImportError ''HatchMCP'' collaborator) \<and>
      fst (exec_stmt env (ImportFrom ''hatch_mcp'' [''HatchMCP'']) nsb) =
        Some (ImportError ''HatchMCP'' collaborator))"
  by (auto simp: load_facade_def exec_facade_body import_module_def absolute_hatch_mcp)

theorem load_failure_propagation_witness:
  "env_absent collaborator = None \<and>
   load_facade env_absent fresh_ns = Inl (ModuleNotFoundError collaborator) \<and>
   env_nosym collaborator = Some (Loaded [(''logging'', PyModule ''logging'')]) \<and>
   map_of [(''logging'', PyModule ''logging'')] ''HatchMCP'' = None \<and>
   load_facade env_nosym fresh_ns = Inl (ImportError ''HatchMCP'' collaborator) \<and>
   env_cached_nosym collaborator = Some (Cached [(''logging'', PyModule ''logging'')]) \<and>
   load_facade env_cached_nosym fresh_ns = Inl (ImportError ''HatchMCP'' collaborator)"
  using load_failure_propagation [where env = env_absent and nsa = fresh_ns and mns = "[]" and nsb = fresh_ns]
    load_failure_propagation [where env = env_nosym and nsa = fresh_ns
      and mns = "[(''logging'', PyModule ''logging'')]" and nsb = fresh_ns]
    load_failure_propagation [where env = env_cached_nosym and nsa = fresh_ns
      and mns = "[(''logging'', PyModule ''logging'')]" and nsb = fresh_ns]
  by (simp add: env_absent_def env_nosym_def env_cached_nosym_def)

text \<open>
  C4. In a loaded package the name \<^verbatim>\<open>HatchMCP\<close> is bound to the very reference that
  the name has in the module \<^verbatim>\<open>hatch_mcp\<close>: the same object, not a copy and not a
  wrapper.
\<close>

theorem export_identity:
  "load_facade env ns0 = Inr ns \<Longrightarrow>
     \<exists>mns v. (env collaborator = Some (Loaded mns) \<or> env collaborator = Some (Cached mns)) \<and>
             getattr mns ''HatchMCP'' = Inr v \<and> getattr ns ''HatchMCP'' = Inr v"
  by (auto simp: load_facade_def exec_facade_body getattr_def update_conv' map_of_bind_submodule import_module_def
      split: sum.splits option.splits modresult.splits)

theorem export_identity_witness:
  "load_facade env_ok fresh_ns = Inr loaded_ns \<and>
   (\<exists>mns. env_ok collaborator = Some (Loaded mns) \<and> getattr mns ''HatchMCP'' = Inr (PyObj 7)) \<and>
   getattr loaded_ns ''HatchMCP'' = Inr (PyObj 7)"
  using export_identity [OF load_fresh_ok] load_fresh_ok
  by (simp add: env_ok_def getattr_def loaded_ns_def)

subsection \<open>What a load leaves behind\<close>

text \<open>
  A load that succeeds leaves every name as it found it, but for the docstring, the
  version, the submodule, the class and the export list.
\<close>

lemma load_absent: "load_facade env_absent fresh_ns = Inl (ModuleNotFoundError collaborator)"
  by (simp add: load_facade_def exec_facade_body import_module_def env_absent_def)

lemma load_nosym: "load_facade env_nosym fresh_ns = Inl (ImportError ''HatchMCP'' collaborator)"
  by (simp add: load_facade_def exec_facade_body import_module_def env_nosym_def)

lemma load_cached: "load_facade env_cached fresh_ns = Inr reloaded_ns"
  by (simp add: load_facade_def exec_facade_body import_module_def bind_submodule_def
      absolute_hatch_mcp env_cached_def fresh_ns_def reloaded_ns_def)

lemma trace_facade_body:
  "trace env facade_body ns0 =
     [ns0,
      AList.update ''__doc__'' (PyStr facade_doc) ns0,
      AList.update ''__version__'' (PyStr ''0.2.0'')
         (AList.update ''__doc__'' (PyStr facade_doc) ns0)] @
     (case import_module env collaborator of
        Inl e \<Rightarrow>
          [AList.update ''__version__'' (PyStr ''0.2.0'')
             (AList.update ''__doc__'' (PyStr facade_doc) ns0)]
      | Inr mns \<Rightarrow>
          (case map_of mns ''HatchMCP'' of
             None \<Rightarrow>
               [bind_submodule env ''hatch_mcp''
                  (AList.update ''__version__'' (PyStr ''0.2.0'')
                     (AList.update ''__doc__'' (PyStr facade_doc) ns0))]
           | Some v \<Rightarrow>
               [AList.update ''HatchMCP'' v
                  (bind_submodule env ''hatch_mcp''
                     (AList.update ''__version__'' (PyStr ''0.2.0'')
                        (AList.update ''__doc__'' (PyStr facade_doc) ns0))),
                AList.update ''__all__'' (PyList [PyStr ''HatchMCP''])
                  (AList.update ''HatchMCP'' v
                     (bind_submodule env ''hatch_mcp''
                        (AList.update ''__version__'' (PyStr ''0.2.0'')
                           (AList.update ''__doc__'' (PyStr facade_doc) ns0))))]))"
  by (simp add: trace_def steps_facade_body exec_facade_body split: sum.splits option.splits)

lemma load_frame:
  "load_facade env nsa = Inr ns \<Longrightarrow>
   n \<notin> {''__doc__'', ''__version__'', ''hatch_mcp'', ''HatchMCP'', ''__all__''} \<Longrightarrow>
     map_of ns n = map_of nsa n"
  by (auto simp: load_facade_def exec_facade_body update_conv' map_of_bind_submodule split: sum.splits option.splits)

text \<open>
  C5. A load is all or nothing for the importer: either it returns the package, in which
  both \<^verbatim>\<open>__version__\<close> and \<^verbatim>\<open>HatchMCP\<close> are bound, or it raises, and the importer holds
  no package in which either could be reached.
\<close>

theorem load_atomic:
  "(\<exists>ns v. load_facade env ns0 = Inr ns \<and>
           getattr ns ''__version__'' = Inr (PyStr ''0.2.0'') \<and>
           getattr ns ''HatchMCP'' = Inr v \<and>
           available (load_facade env ns0) ''__version__'' \<and>
           available (load_facade env ns0) ''HatchMCP'') \<or>
   (\<exists>e. load_facade env ns0 = Inl e \<and>
        \<not> available (load_facade env ns0) ''__version__'' \<and>
        \<not> available (load_facade env ns0) ''HatchMCP'')"
  by (auto simp: load_facade_def exec_facade_body getattr_def update_conv' map_of_bind_submodule available_def
      bound_def split: sum.splits option.splits)

theorem load_atomic_witness:
  "available (load_facade env_ok fresh_ns) ''__version__'' \<and>
   available (load_facade env_ok fresh_ns) ''HatchMCP'' \<and>
   \<not> available (load_facade env_nosym fresh_ns) ''__version__'' \<and>
   \<not> available (load_facade env_nosym fresh_ns) ''HatchMCP'' \<and>
   \<not> available (load_facade env_absent fresh_ns) ''__version__'' \<and>
   \<not> available (load_facade env_absent fresh_ns) ''HatchMCP''"
  using load_atomic [of env_ok fresh_ns] load_atomic [of env_nosym fresh_ns]
    load_atomic [of env_absent fresh_ns]
  by (auto simp: load_fresh_ok load_nosym load_absent)

text \<open>
  C6. The body is the only code of the package, and a load runs each of its statements
  at most once. In a load that succeeds, exactly one of the statements that run binds
  \<^verbatim>\<open>__version__\<close> and exactly one binds \<^verbatim>\<open>__all__\<close>; \<^verbatim>\<open>__version__\<close> has the value it
  started with before its assignment and its final value in every namespace from there
  to the end of the load, and \<^verbatim>\<open>__all__\<close> keeps the value it started with until the last
  statement sets it. No statement of the package rebinds either name after it is set.
\<close>

theorem constants_set_once:
  "load_facade env nsa = Inr ns \<Longrightarrow>
     length (filter (\<lambda>(s, ns'). ''__version__'' \<in> set (binds s)) (steps env facade_body nsa)) = 1 \<and>
     length (filter (\<lambda>(s, ns'). ''__all__'' \<in> set (binds s)) (steps env facade_body nsa)) = 1 \<and>
     last (trace env facade_body nsa) = ns \<and>
     (\<forall>ns' \<in> set (take 2 (trace env facade_body nsa)).
        map_of ns' ''__version__'' = map_of nsa ''__version__'') \<and>
     (\<forall>ns' \<in> set (drop 2 (trace env facade_body nsa)).
        map_of ns' ''__version__'' = map_of ns ''__version__'') \<and>
     (\<forall>ns' \<in> set (butlast (trace env facade_body nsa)).
        map_of ns' ''__all__'' = map_of nsa ''__all__'')"
  by (auto simp: load_facade_def steps_facade_body trace_facade_body exec_facade_body
      update_conv' map_of_bind_submodule split: sum.splits option.splits)


theorem constants_set_once_witness:
  "load_facade env_ok fresh_ns = Inr loaded_ns \<and>
   length (filter (\<lambda>(s, ns'). ''__version__'' \<in> set (binds s)) (steps env_ok facade_body fresh_ns)) = 1 \<and>
   length (filter (\<lambda>(s, ns'). ''__all__'' \<in> set (binds s)) (steps env_ok facade_body fresh_ns)) = 1 \<and>
   last (trace env_ok facade_body fresh_ns) = loaded_ns \<and>
   map_of fresh_ns ''__version__'' = None \<and>
   map_of loaded_ns ''__version__'' = Some (PyStr ''0.2.0'') \<and>
   map_of fresh_ns ''__all__'' = None \<and>
   map_of loaded_ns ''__all__'' = Some (PyList [PyStr ''HatchMCP''])"
  using constants_set_once [OF load_fresh_ok] load_fresh_ok
  by (simp add: fresh_ns_def loaded_ns_def)

text \<open>
  C8. \<^verbatim>\<open>from hatch_mcp_server import *\<close> on a loaded package binds one name,
  \<^verbatim>\<open>HatchMCP\<close>, to the object the package holds under it, and \<^verbatim>\<open>__version__\<close>, which
  \<^verbatim>\<open>__all__\<close> does not list, is still an attribute of the package. The submodule
  \<^verbatim>\<open>hatch_mcp\<close> is an attribute of the package when this load is the one that loaded
  the submodule; when the submodule was already in \<^verbatim>\<open>sys.modules\<close>, the load leaves the
  name \<^verbatim>\<open>hatch_mcp\<close> as it found it, so that a package loaded again in a new namespace
  has no such attribute.
\<close>

theorem wildcard_import:
  "load_facade env nsa = Inr ns \<Longrightarrow>
     (\<exists>v. getattr ns ''HatchMCP'' = Inr v \<and> import_star ns = Some (Inr [(''HatchMCP'', v)])) \<and>
     getattr ns ''__version__'' = Inr (PyStr ''0.2.0'') \<and>
     ((\<exists>mns. env collaborator = Some (Loaded mns)) \<longrightarrow>
        getattr ns ''hatch_mcp'' = Inr (PyModule collaborator)) \<and>
     ((\<exists>mns. env collaborator = Some (Cached mns)) \<longrightarrow>
        map_of ns ''hatch_mcp'' = map_of nsa ''hatch_mcp'')"
  by (auto simp: load_facade_def exec_facade_body getattr_def update_conv' map_of_bind_submodule
      import_star_def sequence_items_def absolute_hatch_mcp split: sum.splits option.splits)

theorem wildcard_import_witness:
  "load_facade env_ok fresh_ns = Inr loaded_ns \<and>
   env_ok collaborator = Some (Loaded [(''logging'', PyModule ''logging''), (''HatchMCP'', PyObj 7)]) \<and>
   import_star loaded_ns = Some (Inr [(''HatchMCP'', PyObj 7)]) \<and>
   getattr loaded_ns ''__version__'' = Inr (PyStr ''0.2.0'') \<and>
   getattr loaded_ns ''hatch_mcp'' = Inr (PyModule collaborator) \<and>
   load_facade env_cached fresh_ns = Inr reloaded_ns \<and>
   env_cached collaborator = Some (Cached [(''logging'', PyModule ''logging''), (''HatchMCP'', PyObj 7)]) \<and>
   import_star reloaded_ns = Some (Inr [(''HatchMCP'', PyObj 7)]) \<and>
   map_of reloaded_ns ''hatch_mcp'' = map_of fresh_ns ''hatch_mcp''"
  using wildcard_import [OF load_fresh_ok] wildcard_import [OF load_cached] load_fresh_ok load_cached
  by (auto simp: getattr_def loaded_ns_def reloaded_ns_def env_ok_def env_cached_def)

text \<open>
  Stated for every loaded package, the property fails for the submodule: loaded in a new
  namespace while \<^verbatim>\<open>hatch_mcp\<close> is already in \<^verbatim>\<open>sys.modules\<close>, the package has the class
  and the version but no attribute \<^verbatim>\<open>hatch_mcp\<close>.
\<close>

theorem wildcard_import_counterexample:
  "load_facade env_cached fresh_ns = Inr reloaded_ns \<and>
   getattr reloaded_ns ''HatchMCP'' = Inr (PyObj 7) \<and>
   getattr reloaded_ns ''hatch_mcp'' = Inl (AttributeError ''hatch_mcp'')"
  by (simp add: load_cached getattr_def reloaded_ns_def)

text \<open>
  C9. The order of a load. A load starts in a namespace in which \<^verbatim>\<open>__all__\<close> is not
  bound unless \<^verbatim>\<open>HatchMCP\<close> is (a module just created has neither). Then: the statements
  run in the order of the file, all four when the load succeeds and the first three,
  up to the import, when it fails; the import statement starts in a namespace where
  \<^verbatim>\<open>__version__\<close> is already \<^verbatim>\<open>"0.2.0"\<close> and \<^verbatim>\<open>__all__\<close> is as the load found it; in
  no namespace of the load is \<^verbatim>\<open>__all__\<close> bound with \<^verbatim>\<open>HatchMCP\<close> unbound; and when
  the body raises, the namespace it leaves has \<^verbatim>\<open>__version__\<close> bound to \<^verbatim>\<open>"0.2.0"\<close>.
\<close>

theorem load_order:
  assumes "bound nsa ''__all__'' \<longrightarrow> bound nsa ''HatchMCP''"
  shows
    "map fst (steps env facade_body nsa) =
       (if fst (exec_body env facade_body nsa) = None then facade_body else take 3 facade_body) \<and>
     (\<forall>(s, ns) \<in> set (steps env facade_body nsa). is_import s \<longrightarrow>
        getattr ns ''__version__'' = Inr (PyStr ''0.2.0'') \<and>
        map_of ns ''__all__'' = map_of nsa ''__all__'') \<and>
     (\<forall>ns \<in> set (trace env facade_body nsa). bound ns ''__all__'' \<longrightarrow> bound ns ''HatchMCP'') \<and>
     (\<forall>e ns. exec_body env facade_body nsa = (Some e, ns) \<longrightarrow>
        getattr ns ''__version__'' = Inr (PyStr ''0.2.0''))"
proof (intro conjI)
  show "map fst (steps env facade_body nsa) =
       (if fst (exec_body env facade_body nsa) = None then facade_body else take 3 facade_body)"
    by (simp add: steps_facade_body exec_facade_body facade_body_def
        split: sum.splits option.splits)
  show "\<forall>(s, ns) \<in> set (steps env facade_body nsa). is_import s \<longrightarrow>
        getattr ns ''__version__'' = Inr (PyStr ''0.2.0'') \<and>
        map_of ns ''__all__'' = map_of nsa ''__all__''"
    by (auto simp: steps_facade_body getattr_def update_conv' map_of_bind_submodule split: sum.splits option.splits)
  show "\<forall>ns \<in> set (trace env facade_body nsa). bound ns ''__all__'' \<longrightarrow> bound ns ''HatchMCP''"
    using assms
    by (auto simp: trace_facade_body bound_def update_conv' map_of_bind_submodule split: sum.splits option.splits)
  show "\<forall>e ns. exec_body env facade_body nsa = (Some e, ns) \<longrightarrow>
        getattr ns ''__version__'' = Inr (PyStr ''0.2.0'')"
    by (auto simp: exec_facade_body getattr_def update_conv' map_of_bind_submodule split: sum.splits option.splits)
qed

theorem load_order_witness:
  "\<not> bound fresh_ns ''__all__'' \<and>
   map fst (steps env_nosym facade_body fresh_ns) = take 3 facade_body \<and>
   (\<exists>e ns. exec_body env_nosym facade_body fresh_ns = (Some e, ns) \<and>
      getattr ns ''__version__'' = Inr (PyStr ''0.2.0'') \<and> \<not> bound ns ''__all__'') \<and>
   map fst (steps env_ok facade_body fresh_ns) = facade_body \<and>
   last (trace env_ok facade_body fresh_ns) = loaded_ns \<and>
   bound loaded_ns ''__all__'' \<and> bound loaded_ns ''HatchMCP''"
proof -
  have fresh: "bound fresh_ns ''__all__'' \<longrightarrow> bound fresh_ns ''HatchMCP''"
    by (simp add: bound_def fresh_ns_def)
  have nb: "\<not> bound fresh_ns ''__all__''"
    by (simp add: bound_def fresh_ns_def)
  have fails: "exec_body env_nosym facade_body fresh_ns =
      (Some (ImportError ''HatchMCP'' collaborator),
       AList.update ''hatch_mcp'' (PyModule collaborator)
         (AList.update ''__version__'' (PyStr ''0.2.0'')
            (AList.update ''__doc__'' (PyStr facade_doc) fresh_ns)))"
    by (simp add: exec_facade_body import_module_def bind_submodule_def absolute_hatch_mcp
        env_nosym_def)
  have nb': "\<not> bound (AList.update ''hatch_mcp'' (PyModule collaborator)
         (AList.update ''__version__'' (PyStr ''0.2.0'')
            (AList.update ''__doc__'' (PyStr facade_doc) fresh_ns))) ''__all__''"
    by (simp add: bound_def update_conv' fresh_ns_def)
  have ok: "exec_body env_ok facade_body fresh_ns = (None, loaded_ns)"
    by (simp add: exec_facade_body import_module_def bind_submodule_def absolute_hatch_mcp
        env_ok_def fresh_ns_def loaded_ns_def)
  have lst: "last (trace env_ok facade_body fresh_ns) = loaded_ns"
    by (simp add: trace_def ok)
  have mem: "loaded_ns \<in> set (trace env_ok facade_body fresh_ns)"
    by (simp add: trace_def ok)
  have ball: "bound loaded_ns ''__all__''"
    by (simp add: bound_def loaded_ns_def)
  note a = load_order [OF fresh, of env_nosym]
  note b = load_order [OF fresh, of env_ok]
  from a fails nb' have "map fst (steps env_nosym facade_body fresh_ns) = take 3 facade_body"
    and "getattr (AList.update ''hatch_mcp'' (PyModule collaborator)
         (AList.update ''__version__'' (PyStr ''0.2.0'')
            (AList.update ''__doc__'' (PyStr facade_doc) fresh_ns))) ''__version__'' = Inr (PyStr ''0.2.0'')"
    by simp_all
  moreover from b ok have "map fst (steps env_ok facade_body fresh_ns) = facade_body"
    by simp
  moreover from b mem ball have "bound loaded_ns ''HatchMCP''"
    by blast
  ultimately show ?thesis
    using nb fails nb' lst ball by simp
qed



end
